theory Spec2Isabelle
  imports Complex_Main "HOL-Library.Multiset"
begin

unbundle bit_operations_syntax

section \<open>Values of the Python program\<close>

text \<open>
  The wrapper \<^verbatim>\<open>aacgmv2/wrapper.py\<close> sits in front of the native module
  \<^verbatim>\<open>aacgmv2._aacgmv2\<close>. This theory embeds the wrapper's functions; the native
  module and the package constants are parameters.

  A Python float is a finite value, an infinity or the not-a-number value. A finite value is
  modelled by the real number it denotes: comparisons, \<^verbatim>\<open>abs\<close>, \<^verbatim>\<open>np.sign\<close> and
  \<^verbatim>\<open>np.clip\<close> are exact on those, while the rounding of \<^verbatim>\<open>+\<close>, \<^verbatim>\<open>-\<close> and \<^verbatim>\<open>%\<close>
  is not modelled.
\<close>

datatype pyfloat = Num real | PInf | NInf | NaN

text \<open>Python's \<^verbatim>\<open>a < b\<close> on floats: every comparison with not-a-number is false.\<close>

fun py_less :: "pyfloat \<Rightarrow> pyfloat \<Rightarrow> bool" where
  "py_less NaN b = False"
| "py_less a NaN = False"
| "py_less (Num a) (Num b) = (a < b)"
| "py_less (Num a) PInf = True"
| "py_less (Num a) NInf = False"
| "py_less PInf b = False"
| "py_less NInf NInf = False"
| "py_less NInf b = True"

text \<open>\<^verbatim>\<open>a > b\<close> is \<^verbatim>\<open>b < a\<close>.\<close>

definition py_greater :: "pyfloat \<Rightarrow> pyfloat \<Rightarrow> bool" where
  "py_greater a b = py_less b a"

fun py_abs :: "pyfloat \<Rightarrow> pyfloat" where
  "py_abs (Num a) = Num \<bar>a\<bar>"
| "py_abs PInf = PInf"
| "py_abs NInf = PInf"
| "py_abs NaN = NaN"

fun np_isnan :: "pyfloat \<Rightarrow> bool" where
  "np_isnan NaN = True"
| "np_isnan a = False"

text \<open>\<^verbatim>\<open>np.sign(x)\<close>: -1, 0 or 1, and not-a-number for not-a-number.\<close>

fun np_sign :: "pyfloat \<Rightarrow> pyfloat" where
  "np_sign (Num a) = Num (sgn a)"
| "np_sign PInf = Num 1"
| "np_sign NInf = Num (- 1)"
| "np_sign NaN = NaN"

text \<open>
  Arithmetic with a finite, positive constant on the right, the only kind the wrapper uses
  (\<^verbatim>\<open>* 90.0\<close>, \<^verbatim>\<open>+ 180.0\<close>, \<^verbatim>\<open>% 360.0\<close>, \<^verbatim>\<open>- 180.0\<close>). Python's \<^verbatim>\<open>%\<close> takes the
  sign of the divisor, and is not-a-number on an infinity.
\<close>

fun py_mul :: "pyfloat \<Rightarrow> real \<Rightarrow> pyfloat" where
  "py_mul (Num a) c = Num (a * c)"
| "py_mul PInf c = PInf"
| "py_mul NInf c = NInf"
| "py_mul NaN c = NaN"

fun py_add :: "pyfloat \<Rightarrow> real \<Rightarrow> pyfloat" where
  "py_add (Num a) c = Num (a + c)"
| "py_add PInf c = PInf"
| "py_add NInf c = NInf"
| "py_add NaN c = NaN"

fun py_sub :: "pyfloat \<Rightarrow> real \<Rightarrow> pyfloat" where
  "py_sub (Num a) c = Num (a - c)"
| "py_sub PInf c = PInf"
| "py_sub NInf c = NInf"
| "py_sub NaN c = NaN"

fun py_mod :: "pyfloat \<Rightarrow> real \<Rightarrow> pyfloat" where
  "py_mod (Num a) c = Num (a - c * of_int \<lfloor>a / c\<rfloor>)"
| "py_mod PInf c = NaN"
| "py_mod NInf c = NaN"
| "py_mod NaN c = NaN"

text \<open>\<^verbatim>\<open>np.clip(x, lo, hi)\<close> on one element.\<close>

fun np_clip1 :: "real \<Rightarrow> real \<Rightarrow> pyfloat \<Rightarrow> pyfloat" where
  "np_clip1 lo hi (Num a) = Num (min (max a lo) hi)"
| "np_clip1 lo hi PInf = Num hi"
| "np_clip1 lo hi NInf = Num lo"
| "np_clip1 lo hi NaN = NaN"

text \<open>The exceptions the wrapper raises or lets through, each with its message.\<close>

datatype py_error =
    ValueError string
  | TypeError string
  | RuntimeError string
  | NameError string
  | OtherError string

text \<open>
  A \<^verbatim>\<open>numpy\<close> array: its shape and its elements in row-major order. A Python scalar
  recast by \<^verbatim>\<open>np.array\<close> has the empty shape and one element.
\<close>

record ndarray =
  shape :: "nat list"
  flat :: "pyfloat list"

definition np_scalar :: "pyfloat \<Rightarrow> ndarray" where
  "np_scalar x = \<lparr>shape = [], flat = [x]\<rparr>"

definition np_array1 :: "pyfloat list \<Rightarrow> ndarray" where
  "np_array1 xs = \<lparr>shape = [length xs], flat = xs\<rparr>"

definition wellformed :: "ndarray \<Rightarrow> bool" where
  "wellformed a = (length (flat a) = prod_list (shape a))"

text \<open>\<^verbatim>\<open>np.full(shape=s, fill_value=a)\<close> for a zero-dimensional \<open>a\<close>.\<close>

definition np_full :: "nat list \<Rightarrow> ndarray \<Rightarrow> ndarray" where
  "np_full s a = \<lparr>shape = s, flat = concat (replicate (prod_list s) (flat a))\<rparr>"

definition np_full_nan :: "nat list \<Rightarrow> ndarray" where
  "np_full_nan s = \<lparr>shape = s, flat = replicate (prod_list s) NaN\<rparr>"

text \<open>
  \<^verbatim>\<open>a.max()\<close> hands a not-a-number element on; \<^verbatim>\<open>np.nanmax(a)\<close> skips them (and is
  not-a-number when every element is). Both raise \<^verbatim>\<open>ValueError\<close> on an empty array.
\<close>

fun py_max2 :: "pyfloat \<Rightarrow> pyfloat \<Rightarrow> pyfloat" where
  "py_max2 NaN b = NaN"
| "py_max2 a NaN = NaN"
| "py_max2 a b = (if py_less a b then b else a)"

definition np_max :: "pyfloat list \<Rightarrow> py_error + pyfloat" where
  "np_max xs = (case xs of
      [] \<Rightarrow> Inl (ValueError ''zero-size array to reduction operation maximum which has no identity'')
    | x # ys \<Rightarrow> Inr (foldl py_max2 x ys))"

definition np_nanmax :: "pyfloat list \<Rightarrow> py_error + pyfloat" where
  "np_nanmax xs = (case xs of
      [] \<Rightarrow> Inl (ValueError ''zero-size array to reduction operation fmax which has no identity'')
    | x # ys \<Rightarrow> (case filter (\<lambda>v. \<not> np_isnan v) xs of
                   [] \<Rightarrow> Inr NaN
                 | v # vs \<Rightarrow> Inr (foldl py_max2 v vs)))"

section \<open>Strings\<close>

text \<open>
  \<^verbatim>\<open>str.upper\<close> on the ASCII letters, \<^verbatim>\<open>str.replace(" ", "")\<close> and
  \<^verbatim>\<open>str.split(sep)\<close> with a one-character separator (which always returns at least one
  piece, the empty one for the empty string).
\<close>

definition upper_char :: "char \<Rightarrow> char" where
  "upper_char c =
     (case map_of (zip ''abcdefghijklmnopqrstuvwxyz'' ''ABCDEFGHIJKLMNOPQRSTUVWXYZ'') c of
        None \<Rightarrow> c
      | Some u \<Rightarrow> u)"

definition str_upper :: "string \<Rightarrow> string" where
  "str_upper s = map upper_char s"

definition str_remove_spaces :: "string \<Rightarrow> string" where
  "str_remove_spaces s = filter (\<lambda>c. c \<noteq> CHR '' '') s"

fun str_split :: "char \<Rightarrow> string \<Rightarrow> string list" where
  "str_split sep [] = [[]]"
| "str_split sep (c # cs) =
     (if c = sep then [] # str_split sep cs
      else (case str_split sep cs of
              [] \<Rightarrow> [[c]]
            | t # ts \<Rightarrow> (c # t) # ts))"

section \<open>What the wrapper imports\<close>

text \<open>
  The effects of a call are kept in a value of type \<open>'s world\<close>: the state of the native
  library (its epoch register among it) and, in order, every message logged and every call
  made to a native primitive.
\<close>

datatype event =
    LogWarning string
  | LogError string
  | Call_set_datetime int int int int int int
  | Call_convert pyfloat pyfloat pyfloat int
  | Call_mlt_convert int int int int int int pyfloat
  | Call_inv_mlt_convert int int int int int int pyfloat

record 's world =
  native :: 's
  events :: "event list"

text \<open>
  The native module \<^verbatim>\<open>aacgmv2._aacgmv2\<close> (its six flag constants and its four
  primitives, each of which may raise) and the package constant
  \<^verbatim>\<open>aacgmv2.high_alt_trace\<close> are not part of the wrapper: they are the fields of the
  parameter \<open>env\<close>.
\<close>

record 's env =
  G2A :: int
  A2G :: int
  TRACE :: int
  ALLOWTRACE :: int
  BADIDEA :: int
  GEOCENTRIC :: int
  high_alt_trace :: real
  set_datetime :: "int \<Rightarrow> int \<Rightarrow> int \<Rightarrow> int \<Rightarrow> int \<Rightarrow> int \<Rightarrow> 's \<Rightarrow> (py_error + unit) \<times> 's"
  convert :: "pyfloat \<Rightarrow> pyfloat \<Rightarrow> pyfloat \<Rightarrow> int \<Rightarrow> 's
                \<Rightarrow> (py_error + pyfloat \<times> pyfloat \<times> pyfloat) \<times> 's"
  mlt_convert :: "int \<Rightarrow> int \<Rightarrow> int \<Rightarrow> int \<Rightarrow> int \<Rightarrow> int \<Rightarrow> pyfloat \<Rightarrow> 's
                \<Rightarrow> (py_error + pyfloat) \<times> 's"
  inv_mlt_convert :: "int \<Rightarrow> int \<Rightarrow> int \<Rightarrow> int \<Rightarrow> int \<Rightarrow> int \<Rightarrow> pyfloat \<Rightarrow> 's
                \<Rightarrow> (py_error + pyfloat) \<times> 's"

text \<open>
  Modelled from the spec: \<^verbatim>\<open>aacgmv2.high_alt_coeff\<close>, the package constant that
  \<^verbatim>\<open>test_height\<close> reads, is set outside the wrapper; the spec gives it as 2000 km.
\<close>

definition high_alt_coeff :: real where
  "high_alt_coeff = 2000"

definition log_event :: "event \<Rightarrow> 's world \<Rightarrow> 's world" where
  "log_event e w = w\<lparr>events := events w @ [e]\<rparr>"

section \<open>convert_str_to_bit\<close>

text \<open>The dictionary \<^verbatim>\<open>convert_code\<close> of \<^verbatim>\<open>convert_str_to_bit\<close>.\<close>

definition convert_code :: "('s, 'x) env_scheme \<Rightarrow> string \<rightharpoonup> int" where
  "convert_code env =
     [''G2A'' \<mapsto> G2A env, ''A2G'' \<mapsto> A2G env, ''TRACE'' \<mapsto> TRACE env,
      ''BADIDEA'' \<mapsto> BADIDEA env, ''GEOCENTRIC'' \<mapsto> GEOCENTRIC env,
      ''ALLOWTRACE'' \<mapsto> ALLOWTRACE env]"

text \<open>
  Lines 521-528: upper case, spaces removed, split along the pipes; the values of the pieces
  that are keys of the dictionary are added up.
\<close>

definition convert_str_to_bit :: "('s, 'x) env_scheme \<Rightarrow> string \<Rightarrow> int" where
  "convert_str_to_bit env method_code =
     (let method_codes = str_split CHR ''|'' (str_remove_spaces (str_upper method_code))
      in sum_list (List.map_filter (convert_code env) method_codes))"

text \<open>
  The decoding as the spec words it, for comparison with the code: split on the pipes, upper
  case and strip the spaces of each token, add the flag values of the recognised tokens and
  ignore the others.
\<close>

definition token_value :: "('s, 'x) env_scheme \<Rightarrow> string \<Rightarrow> int" where
  "token_value env t =
     (case convert_code env (str_remove_spaces (str_upper t)) of None \<Rightarrow> 0 | Some v \<Rightarrow> v)"

definition decode_spec :: "('s, 'x) env_scheme \<Rightarrow> string \<Rightarrow> int" where
  "decode_spec env text = sum_list (map (token_value env) (str_split CHR ''|'' text))"

section \<open>test_time and test_height\<close>

record datetime =
  year :: int
  month :: int
  day :: int
  hour :: int
  minute :: int
  second :: int

text \<open>
  What a caller may pass as \<^verbatim>\<open>dtime\<close>: a \<^verbatim>\<open>datetime.date\<close>, a
  \<^verbatim>\<open>datetime.datetime\<close>, or an object that is neither.
\<close>

datatype pytime = PyDate int int int | PyDateTime datetime | PyOtherTime

definition test_time :: "pytime \<Rightarrow> py_error + datetime" where
  "test_time dtime =
     (case dtime of
        PyDate y m d \<Rightarrow> Inr \<lparr>year = y, month = m, day = d, hour = 0, minute = 0, second = 0\<rparr>
      | PyDateTime t \<Rightarrow> Inr t
      | PyOtherTime \<Rightarrow> Inl (ValueError ''time variable (dtime) must be a datetime object''))"

text \<open>
  Lines 93-116. \<^verbatim>\<open>not (bit_code & mask)\<close> holds when the conjunction is zero. The
  messages are constant but for the threshold, printed with no decimals.
\<close>

definition test_height :: "('s, 'x) env_scheme \<Rightarrow> pyfloat \<Rightarrow> int \<Rightarrow> 's world \<Rightarrow> bool \<times> 's world" where
  "test_height env height bit_code w =
     (let w1 = (if py_less height (Num 0)
                then log_event (LogWarning ''conversion not intended for altitudes < 0 km'') w
                else w)
      in if py_greater height (Num high_alt_coeff) \<and>
            bit_code AND (TRACE env OR ALLOWTRACE env OR BADIDEA env) = 0
         then (False, log_event (LogError ''coefficients are not valid for altitudes above 2000 km. You must either use field-line tracing (trace=True or allowtrace=True) or indicate you know this is a bad idea'') w1)
         else if py_greater height (Num (high_alt_trace env)) \<and> bit_code AND BADIDEA env = 0
         then (False, log_event (LogError ''these coordinates are not intended for the magnetosphere! You must indicate that you know this is a bad idea.  If you continue, it is possible that the code will hang.'') w1)
         else (True, w1))"

section \<open>The steps shared by the two converters\<close>

text \<open>
  What a caller may pass as \<^verbatim>\<open>method_code\<close>: a string, an integer, or an object that
  is neither (it has no \<^verbatim>\<open>upper\<close> and is not an \<^verbatim>\<open>int\<close>).
\<close>

datatype pymethod = MethodStr string | MethodInt int | MethodOther

text \<open>
  Lines 208-215 and 349-356: a string is decoded, an integer is taken as it is, anything
  else raises. The message is kept without the printed object.
\<close>

definition method_bit_code :: "('s, 'x) env_scheme \<Rightarrow> pymethod \<Rightarrow> py_error + int" where
  "method_bit_code env method_code =
     (case method_code of
        MethodStr s \<Rightarrow> Inr (convert_str_to_bit env (str_upper s))
      | MethodInt n \<Rightarrow> Inr n
      | MethodOther \<Rightarrow> Inl (ValueError ''unknown method code''))"

text \<open>Lines 221-227, the latitude test of \<^verbatim>\<open>convert_latlon\<close>.\<close>

definition convert_latlon_latitude :: "pyfloat \<Rightarrow> py_error + pyfloat" where
  "convert_latlon_latitude in_lat =
     (if py_greater (py_abs in_lat) (Num 90) then
        (if py_greater (py_abs in_lat) (Num (901 / 10))
         then Inl (ValueError ''unrealistic latitude'')
         else Inr (py_mul (np_sign in_lat) 90))
      else Inr in_lat)"

text \<open>Lines 362-366, the latitude test of \<^verbatim>\<open>convert_latlon_arr\<close>.\<close>

definition convert_latlon_arr_latitude :: "ndarray \<Rightarrow> py_error + ndarray" where
  "convert_latlon_arr_latitude in_lat =
     (case np_max (map py_abs (flat in_lat)) of
        Inl e \<Rightarrow> Inl e
      | Inr m \<Rightarrow>
          if py_greater m (Num 90) then
            (if py_greater m (Num (901 / 10))
             then Inl (ValueError ''unrealistic latitude'')
             else Inr (in_lat\<lparr>flat := map (np_clip1 (- 90) 90) (flat in_lat)\<rparr>))
          else Inr in_lat)"

text \<open>Lines 229-230 and 368-369: \<^verbatim>\<open>((in_lon + 180.0) % 360.0) - 180.0\<close>.\<close>

definition constrain_longitude :: "pyfloat \<Rightarrow> pyfloat" where
  "constrain_longitude in_lon = py_sub (py_mod (py_add in_lon 180) 360) 180"

text \<open>A call of a native primitive runs it on the library's state and records the call.\<close>

definition call_set_datetime ::
  "('s, 'x) env_scheme \<Rightarrow> datetime \<Rightarrow> 's world \<Rightarrow> (py_error + unit) \<times> 's world" where
  "call_set_datetime env t w =
     (case set_datetime env (year t) (month t) (day t) (hour t) (minute t) (second t) (native w) of
        (r, s) \<Rightarrow>
          (r, \<lparr>native = s,
               events = events w @
                 [Call_set_datetime (year t) (month t) (day t) (hour t) (minute t) (second t)]\<rparr>))"

definition call_convert ::
  "('s, 'x) env_scheme \<Rightarrow> int \<Rightarrow> pyfloat \<times> pyfloat \<times> pyfloat \<Rightarrow> 's world
     \<Rightarrow> (py_error + pyfloat \<times> pyfloat \<times> pyfloat) \<times> 's world" where
  "call_convert env bit_code p w =
     (case p of (lat, lon, h) \<Rightarrow>
        (case convert env lat lon h bit_code (native w) of
           (r, s) \<Rightarrow> (r, \<lparr>native = s, events = events w @ [Call_convert lat lon h bit_code]\<rparr>)))"

definition call_mlt_convert ::
  "('s, 'x) env_scheme \<Rightarrow> datetime \<Rightarrow> pyfloat \<Rightarrow> 's world \<Rightarrow> (py_error + pyfloat) \<times> 's world" where
  "call_mlt_convert env t x w =
     (case mlt_convert env (year t) (month t) (day t) (hour t) (minute t) (second t) x (native w) of
        (r, s) \<Rightarrow>
          (r, \<lparr>native = s,
               events = events w @
                 [Call_mlt_convert (year t) (month t) (day t) (hour t) (minute t) (second t) x]\<rparr>))"

definition call_inv_mlt_convert ::
  "('s, 'x) env_scheme \<Rightarrow> datetime \<Rightarrow> pyfloat \<Rightarrow> 's world \<Rightarrow> (py_error + pyfloat) \<times> 's world" where
  "call_inv_mlt_convert env t x w =
     (case inv_mlt_convert env (year t) (month t) (day t) (hour t) (minute t) (second t) x (native w) of
        (r, s) \<Rightarrow>
          (r, \<lparr>native = s,
               events = events w @
                 [Call_inv_mlt_convert (year t) (month t) (day t) (hour t) (minute t) (second t) x]\<rparr>))"

text \<open>
  Lines 232-240 and 372-380: a \<^verbatim>\<open>TypeError\<close> or \<^verbatim>\<open>RuntimeError\<close> of
  \<^verbatim>\<open>set_datetime\<close> is raised again under the same class with a longer message; any other
  exception goes through as it is.
\<close>

definition set_current_datetime ::
  "('s, 'x) env_scheme \<Rightarrow> datetime \<Rightarrow> 's world \<Rightarrow> (py_error + unit) \<times> 's world" where
  "set_current_datetime env t w =
     (case call_set_datetime env t w of
        (Inl (TypeError m), w') \<Rightarrow> (Inl (TypeError (''unable to set time: '' @ m)), w')
      | (Inl (RuntimeError m), w') \<Rightarrow> (Inl (RuntimeError (''unable to set time: '' @ m)), w')
      | (Inl e, w') \<Rightarrow> (Inl e, w')
      | (Inr u, w') \<Rightarrow> (Inr (), w'))"

section \<open>convert_latlon\<close>

text \<open>
  Lines 200-254. The outputs start as not-a-number; a blocked height returns them at once;
  whatever the native \<^verbatim>\<open>convert\<close> raises is caught, logged as a warning, and leaves them
  as they are.
\<close>

definition convert_latlon ::
  "('s, 'x) env_scheme \<Rightarrow> pyfloat \<Rightarrow> pyfloat \<Rightarrow> pyfloat \<Rightarrow> pytime \<Rightarrow> pymethod \<Rightarrow> 's world
     \<Rightarrow> (py_error + pyfloat \<times> pyfloat \<times> pyfloat) \<times> 's world" where
  "convert_latlon env in_lat in_lon height dtime method_code w =
     (case test_time dtime of
        Inl e \<Rightarrow> (Inl e, w)
      | Inr t \<Rightarrow>
     (case method_bit_code env method_code of
        Inl e \<Rightarrow> (Inl e, w)
      | Inr bit_code \<Rightarrow>
     (case test_height env height bit_code w of
        (good_height, w1) \<Rightarrow>
     if \<not> good_height then (Inr (NaN, NaN, NaN), w1)
     else
     (case convert_latlon_latitude in_lat of
        Inl e \<Rightarrow> (Inl e, w1)
      | Inr lat \<Rightarrow>
     (case set_current_datetime env t w1 of
        (Inl e, w2) \<Rightarrow> (Inl e, w2)
      | (Inr u, w2) \<Rightarrow>
     (case call_convert env bit_code (lat, constrain_longitude in_lon, height) w2 of
        (Inl e, w3) \<Rightarrow>
          (Inr (NaN, NaN, NaN), log_event (LogWarning ''unable to perform conversion'') w3)
      | (Inr out, w3) \<Rightarrow> (Inr out, w3)))))))"

section \<open>convert_latlon_arr\<close>

text \<open>
  The three inputs are taken after the recast of lines 301-303, as arrays. Lines 305-324:
  when at least one of them is zero-dimensional, either all are, and each becomes a
  one-element array, or the zero-dimensional ones are filled to the shape of the first input of
  the highest rank (\<^verbatim>\<open>argmax\<close> returns the first maximum).
\<close>

definition broadcast_inputs ::
  "ndarray \<Rightarrow> ndarray \<Rightarrow> ndarray \<Rightarrow> 's world \<Rightarrow> (ndarray \<times> ndarray \<times> ndarray) \<times> 's world" where
  "broadcast_inputs in_lat in_lon height w =
     (let r0 = length (shape in_lat); r1 = length (shape in_lon); r2 = length (shape height)
      in if min r0 (min r1 r2) = 0 then
           (if max r0 (max r1 r2) = 0 then
              ((\<lparr>shape = [1], flat = flat in_lat\<rparr>,
                \<lparr>shape = [1], flat = flat in_lon\<rparr>,
                \<lparr>shape = [1], flat = flat height\<rparr>),
               log_event (LogWarning ''for a single location, consider using convert_latlon or get_aacgm_coord'') w)
            else
              (let imax = (if r1 \<le> r0 \<and> r2 \<le> r0 then 0 else if r2 \<le> r1 then 1 else (2::nat));
                   max_shape = (if imax = 0 then shape in_lat
                                else if imax = 1 then shape in_lon else shape height)
               in ((if r0 = 0 then np_full max_shape in_lat else in_lat,
                    if r1 = 0 then np_full max_shape in_lon else in_lon,
                    if r2 = 0 then np_full max_shape height else height), w)))
         else ((in_lat, in_lon, height), w))"

text \<open>
  Lines 328-339. \<^verbatim>\<open>array_key\<close> holds the names of the inputs whose shape is not
  \<^verbatim>\<open>(1,)\<close>. With three of them the call raises \<^verbatim>\<open>ValueError\<close>; with two, the
  comparison reads the name \<^verbatim>\<open>array_dict\<close>, which is bound nowhere, so Python raises
  \<^verbatim>\<open>NameError\<close> before the comparison is made. (\<^verbatim>\<open>ulen\<close> is computed and never read.)
\<close>

definition check_shapes :: "ndarray \<Rightarrow> ndarray \<Rightarrow> ndarray \<Rightarrow> py_error + unit" where
  "check_shapes in_lat in_lon height =
     (if \<not> (shape in_lat = shape in_lon \<and> shape in_lat = shape height) then
        (let shape_dict = [(''lat'', shape in_lat), (''lon'', shape in_lon),
                           (''height'', shape height)];
             array_key = map fst (filter (\<lambda>kv. snd kv \<noteq> [1]) shape_dict)
         in if length array_key = 3
            then Inl (ValueError ''lat, lon, and height arrays are mismatched'')
            else if length array_key = 2
            then Inl (NameError ''name array_dict is not defined'')
            else Inr ())
      else Inr ())"

text \<open>
  The element loop of a vectorised function: the calls are made in order and the first
  exception ends the loop.
\<close>

fun vectorize_loop ::
  "('a \<Rightarrow> 'w \<Rightarrow> (py_error + 'b) \<times> 'w) \<Rightarrow> 'a list \<Rightarrow> 'w \<Rightarrow> (py_error + 'b list) \<times> 'w" where
  "vectorize_loop f [] w = (Inr [], w)"
| "vectorize_loop f (a # as) w =
     (case f a w of
        (Inl e, w1) \<Rightarrow> (Inl e, w1)
      | (Inr b, w1) \<Rightarrow>
          (case vectorize_loop f as w1 of
             (Inl e, w2) \<Rightarrow> (Inl e, w2)
           | (Inr bs, w2) \<Rightarrow> (Inr (b # bs), w2)))"

text \<open>
  The only broadcasting left after \<^verbatim>\<open>check_shapes\<close>: an array of the common shape is
  taken as it is, an array of shape \<^verbatim>\<open>(1,)\<close> is repeated.
\<close>

definition broadcast_to :: "nat list \<Rightarrow> ndarray \<Rightarrow> pyfloat list option" where
  "broadcast_to s a =
     (if shape a = s then Some (flat a)
      else if shape a = [1] then Some (concat (replicate (prod_list s) (flat a)))
      else None)"

definition common_shape :: "ndarray \<Rightarrow> ndarray \<Rightarrow> ndarray \<Rightarrow> nat list" where
  "common_shape a b c =
     (if shape a \<noteq> [1] then shape a else if shape b \<noteq> [1] then shape b else shape c)"

text \<open>
  The points a vectorised call goes through: the three arrays broadcast to their common
  shape, element by element.
\<close>

definition batch_points ::
  "ndarray \<Rightarrow> ndarray \<Rightarrow> ndarray \<Rightarrow> (pyfloat \<times> pyfloat \<times> pyfloat) list option" where
  "batch_points in_lat in_lon height =
     (let s = common_shape in_lat in_lon height
      in case (broadcast_to s in_lat, broadcast_to s in_lon, broadcast_to s height) of
           (Some lats, Some lons, Some hs) \<Rightarrow> Some (zip lats (zip lons hs))
         | _ \<Rightarrow> None)"

text \<open>
  Lines 383 and 387: \<^verbatim>\<open>np.vectorize(c_aacgmv2.convert)\<close> applied to the three arrays
  and the bit code. No \<^verbatim>\<open>otypes\<close> are given, so \<^verbatim>\<open>numpy\<close> refuses an empty input,
  then calls the function once on the first element of each input to learn the output types,
  and then on every element, the first one again.
\<close>

definition convert_vectorised ::
  "('s, 'x) env_scheme \<Rightarrow> ndarray \<Rightarrow> ndarray \<Rightarrow> ndarray \<Rightarrow> int \<Rightarrow> 's world
     \<Rightarrow> (py_error + ndarray \<times> ndarray \<times> ndarray) \<times> 's world" where
  "convert_vectorised env in_lat in_lon height bit_code w =
     (case (flat in_lat, flat in_lon, flat height) of
        (x # xs, y # ys, z # zs) \<Rightarrow>
          (case call_convert env bit_code (x, y, z) w of
             (Inl e, w1) \<Rightarrow> (Inl e, w1)
           | (Inr probe, w1) \<Rightarrow>
               (case batch_points in_lat in_lon height of
                  None \<Rightarrow> (Inl (ValueError ''operands could not be broadcast together''), w1)
                | Some points \<Rightarrow>
                    (case vectorize_loop (call_convert env bit_code) points w1 of
                       (Inl e, w2) \<Rightarrow> (Inl e, w2)
                     | (Inr outs, w2) \<Rightarrow>
                         (let s = common_shape in_lat in_lon height
                          in (Inr (\<lparr>shape = s, flat = map fst outs\<rparr>,
                                   \<lparr>shape = s, flat = map (fst \<circ> snd) outs\<rparr>,
                                   \<lparr>shape = s, flat = map (snd \<circ> snd) outs\<rparr>), w2)))))
      | _ \<Rightarrow> (Inl (ValueError ''cannot call vectorize on size 0 inputs unless otypes is set''), w))"

text \<open>
  Lines 300-397. One \<^verbatim>\<open>try\<close> encloses the whole vectorised call: when it raises, the
  three outputs are still the arrays of not-a-number made at lines 345-347.
\<close>

definition convert_latlon_arr ::
  "('s, 'x) env_scheme \<Rightarrow> ndarray \<Rightarrow> ndarray \<Rightarrow> ndarray \<Rightarrow> pytime \<Rightarrow> pymethod \<Rightarrow> 's world
     \<Rightarrow> (py_error + ndarray \<times> ndarray \<times> ndarray) \<times> 's world" where
  "convert_latlon_arr env lat0 lon0 height0 dtime method_code w =
     (case broadcast_inputs lat0 lon0 height0 w of
        ((in_lat, in_lon, height), w0) \<Rightarrow>
     (case check_shapes in_lat in_lon height of
        Inl e \<Rightarrow> (Inl e, w0)
      | Inr u \<Rightarrow>
     (case test_time dtime of
        Inl e \<Rightarrow> (Inl e, w0)
      | Inr t \<Rightarrow>
     (let lat_out = np_full_nan (shape in_lat);
          lon_out = np_full_nan (shape in_lon);
          r_out = np_full_nan (shape height)
      in
     (case method_bit_code env method_code of
        Inl e \<Rightarrow> (Inl e, w0)
      | Inr bit_code \<Rightarrow>
     (case np_nanmax (flat height) of
        Inl e \<Rightarrow> (Inl e, w0)
      | Inr hmax \<Rightarrow>
     (case test_height env hmax bit_code w0 of
        (good_height, w1) \<Rightarrow>
     if \<not> good_height then (Inr (lat_out, lon_out, r_out), w1)
     else
     (case convert_latlon_arr_latitude in_lat of
        Inl e \<Rightarrow> (Inl e, w1)
      | Inr lat \<Rightarrow>
     (case set_current_datetime env t w1 of
        (Inl e, w2) \<Rightarrow> (Inl e, w2)
      | (Inr u, w2) \<Rightarrow>
     (case convert_vectorised env lat (in_lon\<lparr>flat := map constrain_longitude (flat in_lon)\<rparr>)
             height bit_code w2 of
        (Inl e, w3) \<Rightarrow>
          (Inr (lat_out, lon_out, r_out),
           log_event (LogWarning ''unable to perform vector conversion'') w3)
      | (Inr outs, w3) \<Rightarrow> (Inr outs, w3)))))))))))"

section \<open>convert_mlt and the two facades\<close>

text \<open>What \<^verbatim>\<open>convert_mlt\<close> takes and returns: a float or an array.\<close>

datatype pyvalue = PyFloat pyfloat | PyArray ndarray

text \<open>
  Lines 593-610. The primitive is vectorised as above (a first call on the first element,
  then every element); nothing is caught. A zero-dimensional result is returned as a float.
\<close>

definition convert_mlt ::
  "('s, 'x) env_scheme \<Rightarrow> pyvalue \<Rightarrow> pytime \<Rightarrow> bool \<Rightarrow> 's world \<Rightarrow> (py_error + pyvalue) \<times> 's world" where
  "convert_mlt env arr dtime m2a w =
     (case test_time dtime of
        Inl e \<Rightarrow> (Inl e, w)
      | Inr t \<Rightarrow>
          (let a = (case arr of PyFloat x \<Rightarrow> np_scalar x | PyArray b \<Rightarrow> b);
               prim = (if m2a then call_inv_mlt_convert env t else call_mlt_convert env t)
           in case flat a of
                [] \<Rightarrow> (Inl (ValueError ''cannot call vectorize on size 0 inputs unless otypes is set''), w)
              | x # xs \<Rightarrow>
                  (case prim x w of
                     (Inl e, w1) \<Rightarrow> (Inl e, w1)
                   | (Inr probe, w1) \<Rightarrow>
                       (case vectorize_loop prim (flat a) w1 of
                          (Inl e, w2) \<Rightarrow> (Inl e, w2)
                        | (Inr outs, w2) \<Rightarrow>
                            (Inr (case (shape a, outs) of
                                    ([], out # rest) \<Rightarrow> PyFloat out
                                  | _ \<Rightarrow> PyArray \<lparr>shape = shape a, flat = outs\<rparr>), w2)))))"

text \<open>Lines 430-440.\<close>

definition get_aacgm_coord ::
  "('s, 'x) env_scheme \<Rightarrow> pyfloat \<Rightarrow> pyfloat \<Rightarrow> pyfloat \<Rightarrow> pytime \<Rightarrow> string \<Rightarrow> 's world
     \<Rightarrow> (py_error + pyfloat \<times> pyfloat \<times> pyvalue) \<times> 's world" where
  "get_aacgm_coord env glat glon height dtime method w =
     (let method_code = ''G2A|'' @ method
      in case convert_latlon env glat glon height dtime (MethodStr method_code) w of
           (Inl e, w1) \<Rightarrow> (Inl e, w1)
         | (Inr (mlat, mlon, r), w1) \<Rightarrow>
             if np_isnan mlon then (Inr (mlat, mlon, PyFloat NaN), w1)
             else (case convert_mlt env (PyFloat mlon) dtime False w1 of
                     (Inl e, w2) \<Rightarrow> (Inl e, w2)
                   | (Inr mlt, w2) \<Rightarrow> (Inr (mlat, mlon, mlt), w2)))"

text \<open>Lines 475-488.\<close>

definition get_aacgm_coord_arr ::
  "('s, 'x) env_scheme \<Rightarrow> ndarray \<Rightarrow> ndarray \<Rightarrow> ndarray \<Rightarrow> pytime \<Rightarrow> string \<Rightarrow> 's world
     \<Rightarrow> (py_error + ndarray \<times> ndarray \<times> pyvalue) \<times> 's world" where
  "get_aacgm_coord_arr env glat glon height dtime method w =
     (let method_code = ''G2A|'' @ method
      in case convert_latlon_arr env glat glon height dtime (MethodStr method_code) w of
           (Inl e, w1) \<Rightarrow> (Inl e, w1)
         | (Inr (mlat, mlon, r), w1) \<Rightarrow>
             if list_all np_isnan (flat mlon)
             then (Inr (mlat, mlon, PyArray (np_full_nan (shape mlat))), w1)
             else (case convert_mlt env (PyArray mlon) dtime False w1 of
                     (Inl e, w2) \<Rightarrow> (Inl e, w2)
                   | (Inr mlt, w2) \<Rightarrow> (Inr (mlat, mlon, mlt), w2)))"

section \<open>A native library to run the wrapper on\<close>

text \<open>
  For the concrete runs below: the flag values of the released native library
  (\<^verbatim>\<open>G2A 0, A2G 1, TRACE 2, ALLOWTRACE 4, BADIDEA 8, GEOCENTRIC 16\<close>), the package's
  tracing ceiling of 6378 km, and primitives that keep no state and hand their inputs back,
  except that \<^verbatim>\<open>convert\<close> raises at latitude 10.
\<close>

definition echo_env :: "unit env" where
  "echo_env =
     \<lparr>G2A = 0, A2G = 1, TRACE = 2, ALLOWTRACE = 4, BADIDEA = 8, GEOCENTRIC = 16,
      high_alt_trace = 6378,
      set_datetime = (\<lambda>y mo d h mi s st. (Inr (), st)),
      convert = (\<lambda>lat lon h code st.
        (if lat = Num 10 then Inl (RuntimeError ''convert failed'') else Inr (lat, lon, h), st)),
      mlt_convert = (\<lambda>y mo d h mi s x st. (Inr x, st)),
      inv_mlt_convert = (\<lambda>y mo d h mi s x st. (Inr x, st))\<rparr>"

definition world0 :: "unit world" where
  "world0 = \<lparr>native = (), events = []\<rparr>"

definition new_year_2015 :: pytime where
  "new_year_2015 = PyDateTime \<lparr>year = 2015, month = 1, day = 1, hour = 0, minute = 0, second = 0\<rparr>"

section \<open>Reading the record of effects\<close>

text \<open>The calls to the native library among the events, in their order.\<close>

fun is_native_call :: "event \<Rightarrow> bool" where
  "is_native_call (LogWarning m) = False"
| "is_native_call (LogError m) = False"
| "is_native_call e = True"

definition native_calls :: "event list \<Rightarrow> event list" where
  "native_calls es = filter is_native_call es"

fun is_mlt_call :: "event \<Rightarrow> bool" where
  "is_mlt_call (Call_mlt_convert y mo d h mi s x) = True"
| "is_mlt_call (Call_inv_mlt_convert y mo d h mi s x) = True"
| "is_mlt_call e = False"

text \<open>The bit codes handed to \<^verbatim>\<open>convert\<close>, one for each call recorded.\<close>

fun convert_codes :: "event list \<Rightarrow> int list" where
  "convert_codes [] = []"
| "convert_codes (Call_convert lat lon h code # es) = code # convert_codes es"
| "convert_codes (e # es) = convert_codes es"

text \<open>The points handed to \<^verbatim>\<open>convert\<close>, one for each call recorded.\<close>

fun convert_points :: "event list \<Rightarrow> (pyfloat \<times> pyfloat \<times> pyfloat) list" where
  "convert_points [] = []"
| "convert_points (Call_convert lat lon h code # es) = (lat, lon, h) # convert_points es"
| "convert_points (e # es) = convert_points es"

text \<open>A float is a number of magnitude at most \<open>c\<close>.\<close>

definition magnitude_at_most :: "real \<Rightarrow> pyfloat \<Rightarrow> bool" where
  "magnitude_at_most c x = (case x of Num r \<Rightarrow> \<bar>r\<bar> \<le> c | _ \<Rightarrow> False)"

text \<open>
  Modelled from the spec: how the native library, which is not part of the wrapper, reads the
  direction of a method code. The spec's data model has \<^verbatim>\<open>A2G\<close> and \<^verbatim>\<open>G2A\<close> as the
  direction component, \<^verbatim>\<open>G2A\<close> being the value 0 that a code lacking both defaults to: the
  direction is geographic to AACGM when the \<^verbatim>\<open>A2G\<close> flag is not set in the code.
\<close>

definition direction_is_G2A :: "('s, 'x) env_scheme \<Rightarrow> int \<Rightarrow> bool" where
  "direction_is_G2A env code = (code AND A2G env = 0)"

section \<open>Decoding a method string\<close>

lemma str_split_not_Nil: "str_split sep s \<noteq> []"
  by (induction s) (auto split: list.splits)

lemma upper_char_fixes:
  assumes "x \<notin> set ''abcdefghijklmnopqrstuvwxyzABCDEFGHIJKLMNOPQRSTUVWXYZ''"
  shows "upper_char c = x \<longleftrightarrow> c = x"
proof
  assume h: "upper_char c = x"
  show "c = x"
  proof (cases "map_of (zip ''abcdefghijklmnopqrstuvwxyz'' ''ABCDEFGHIJKLMNOPQRSTUVWXYZ'') c")
    case None
    with h show ?thesis by (simp only: upper_char_def option.case)
  next
    case (Some u)
    with h have "u = x" by (simp only: upper_char_def option.case)
    moreover from Some have "u \<in> set ''ABCDEFGHIJKLMNOPQRSTUVWXYZ''"
      by (blast dest: map_of_SomeD set_zip_rightD)
    ultimately show ?thesis using assms by simp
  qed
next
  assume "c = x"
  moreover have "map_of (zip ''abcdefghijklmnopqrstuvwxyz'' ''ABCDEFGHIJKLMNOPQRSTUVWXYZ'') x = None"
  proof (rule ccontr)
    assume "map_of (zip ''abcdefghijklmnopqrstuvwxyz'' ''ABCDEFGHIJKLMNOPQRSTUVWXYZ'') x \<noteq> None"
    then obtain u where "map_of (zip ''abcdefghijklmnopqrstuvwxyz'' ''ABCDEFGHIJKLMNOPQRSTUVWXYZ'') x = Some u"
      by blast
    then have "x \<in> set ''abcdefghijklmnopqrstuvwxyz''"
      by (blast dest: map_of_SomeD set_zip_leftD)
    with assms show False by simp
  qed
  ultimately show "upper_char c = x"
    by (simp only: upper_char_def option.case)
qed

lemma upper_char_pipe: "upper_char c = CHR ''|'' \<longleftrightarrow> c = CHR ''|''"
  by (rule upper_char_fixes) simp

lemma upper_char_space: "upper_char c = CHR '' '' \<longleftrightarrow> c = CHR '' ''"
  by (rule upper_char_fixes) simp

lemma str_split_map:
  assumes "\<And>c. f c = sep \<longleftrightarrow> c = sep"
  shows "str_split sep (map f s) = map (map f) (str_split sep s)"
proof (induction s)
  case Nil show ?case by simp
next
  case (Cons c cs)
  then show ?case using assms str_split_not_Nil[of sep cs]
    by (auto split: list.splits)
qed

lemma str_split_filter:
  assumes "P sep"
  shows "str_split sep (filter P s) = map (filter P) (str_split sep s)"
proof (induction s)
  case Nil show ?case by simp
next
  case (Cons c cs)
  then show ?case using assms str_split_not_Nil[of sep cs]
    by (auto split: list.splits)
qed

lemma sum_list_map_filter:
  "sum_list (List.map_filter f xs) = (\<Sum>t\<leftarrow>xs. case f t of None \<Rightarrow> (0::int) | Some v \<Rightarrow> v)"
  by (induction xs) (auto split: option.splits)

lemma sum_list_mset_cong:
  "mset xs = mset ys \<Longrightarrow> sum_list (map g xs) = (sum_list (map g ys) :: int)"
  by (metis mset_map sum_mset_sum_list)

lemma sum_list_all_zero:
  "\<forall>t \<in> set xs. g t = (0::int) \<Longrightarrow> sum_list (map g xs) = 0"
  by (induction xs) auto

lemma split_normalised:
  "str_split CHR ''|'' (str_remove_spaces (str_upper s)) =
   map (\<lambda>t. str_remove_spaces (str_upper t)) (str_split CHR ''|'' s)"
proof -
  have "str_split CHR ''|'' (filter (\<lambda>c. c \<noteq> CHR '' '') (map upper_char s)) =
        map (filter (\<lambda>c. c \<noteq> CHR '' '')) (str_split CHR ''|'' (map upper_char s))"
    by (rule str_split_filter) simp
  also have "str_split CHR ''|'' (map upper_char s) = map (map upper_char) (str_split CHR ''|'' s)"
    by (rule str_split_map) (rule upper_char_pipe)
  finally show ?thesis
    by (simp add: str_remove_spaces_def str_upper_def comp_def)
qed

lemma convert_str_to_bit_spec: "convert_str_to_bit env s = decode_spec env s"
proof -
  have tv: "token_value env =
      (\<lambda>t. case convert_code env (str_remove_spaces (str_upper t)) of None \<Rightarrow> 0 | Some v \<Rightarrow> v)"
    by (rule ext) (simp add: token_value_def)
  show ?thesis
    by (simp add: convert_str_to_bit_def decode_spec_def tv split_normalised
        sum_list_map_filter comp_def)
qed

lemma remove_spaces_upper:
  "str_remove_spaces (str_upper s) = str_upper (str_remove_spaces s)"
  by (induction s) (auto simp: str_remove_spaces_def str_upper_def upper_char_space)

lemma decode_example:
  "convert_str_to_bit env ''G2A|TRACE|BADIDEA'' = convert_str_to_bit env ''BADIDEA | trace | g2a''"
  by (simp add: convert_str_to_bit_def str_upper_def upper_char_def str_remove_spaces_def
      convert_code_def)

text \<open>
  Claim C5. Decoding a method string splits it on the pipes, upper-cases each token and strips
  its spaces, adds the flag values of the recognised tokens and ignores the others
  (\<open>decode_spec\<close>); a string with no recognised token decodes to 0. Hence two strings that
  differ in case only, in spaces only, or in the order of their tokens only decode to the same
  code, and \<^verbatim>\<open>"G2A|TRACE|BADIDEA"\<close> decodes as \<^verbatim>\<open>"BADIDEA | trace | g2a"\<close> does,
  whatever the flag values are.
\<close>

theorem convert_str_to_bit_decodes:
  "convert_str_to_bit env s = decode_spec env s \<and>
   ((\<forall>t \<in> set (str_split CHR ''|'' s).
        convert_code env (str_remove_spaces (str_upper t)) = None)
      \<longrightarrow> convert_str_to_bit env s = 0) \<and>
   (str_upper s = str_upper s' \<longrightarrow> convert_str_to_bit env s = convert_str_to_bit env s') \<and>
   (str_remove_spaces s = str_remove_spaces s'
      \<longrightarrow> convert_str_to_bit env s = convert_str_to_bit env s') \<and>
   (mset (str_split CHR ''|'' s) = mset (str_split CHR ''|'' s')
      \<longrightarrow> convert_str_to_bit env s = convert_str_to_bit env s') \<and>
   convert_str_to_bit env ''G2A|TRACE|BADIDEA'' = convert_str_to_bit env ''BADIDEA | trace | g2a''"
proof (intro conjI impI)
  show "convert_str_to_bit env s = decode_spec env s"
    by (rule convert_str_to_bit_spec)
next
  assume "\<forall>t \<in> set (str_split CHR ''|'' s).
            convert_code env (str_remove_spaces (str_upper t)) = None"
  then have "\<forall>t \<in> set (str_split CHR ''|'' s). token_value env t = 0"
    by (simp add: token_value_def)
  then have "sum_list (map (token_value env) (str_split CHR ''|'' s)) = 0"
    by (rule sum_list_all_zero)
  then show "convert_str_to_bit env s = 0"
    by (simp add: convert_str_to_bit_spec decode_spec_def)
next
  assume "str_upper s = str_upper s'"
  then show "convert_str_to_bit env s = convert_str_to_bit env s'"
    by (simp add: convert_str_to_bit_def)
next
  assume "str_remove_spaces s = str_remove_spaces s'"
  then show "convert_str_to_bit env s = convert_str_to_bit env s'"
    by (simp add: convert_str_to_bit_def remove_spaces_upper)
next
  assume "mset (str_split CHR ''|'' s) = mset (str_split CHR ''|'' s')"
  then have "sum_list (map (token_value env) (str_split CHR ''|'' s)) =
             sum_list (map (token_value env) (str_split CHR ''|'' s'))"
    by (rule sum_list_mset_cong)
  then show "convert_str_to_bit env s = convert_str_to_bit env s'"
    by (simp only: convert_str_to_bit_spec decode_spec_def)
next
  show "convert_str_to_bit env ''G2A|TRACE|BADIDEA'' =
        convert_str_to_bit env ''BADIDEA | trace | g2a''"
    by (rule decode_example)
qed

text \<open>The theorem at concrete strings, on the flag values of the released library.\<close>

theorem convert_str_to_bit_decodes_witness:
  "convert_str_to_bit echo_env ''north|g3a'' = 0 \<and>
   convert_str_to_bit echo_env ''Trace'' = convert_str_to_bit echo_env ''tRACE'' \<and>
   convert_str_to_bit echo_env '' trace |  badidea'' = convert_str_to_bit echo_env ''trace|badidea'' \<and>
   convert_str_to_bit echo_env ''trace|a2g|geocentric'' = convert_str_to_bit echo_env ''geocentric|trace|a2g'' \<and>
   convert_str_to_bit echo_env ''trace|a2g|geocentric'' = 19"
proof -
  have h1: "\<forall>t \<in> set (str_split CHR ''|'' ''north|g3a'').
              convert_code echo_env (str_remove_spaces (str_upper t)) = None"
    by code_simp
  have h2: "str_upper ''Trace'' = str_upper ''tRACE''"
    by code_simp
  have h3: "str_remove_spaces '' trace |  badidea'' = str_remove_spaces ''trace|badidea''"
    by code_simp
  have h4: "mset (str_split CHR ''|'' ''trace|a2g|geocentric'') =
            mset (str_split CHR ''|'' ''geocentric|trace|a2g'')"
    by (simp add: add_mset_commute)
  have v: "decode_spec echo_env ''trace|a2g|geocentric'' = 19"
    by code_simp
  note c1 = convert_str_to_bit_decodes [of echo_env "''north|g3a''" "[]",
      THEN conjunct2, THEN conjunct1, THEN mp, OF h1]
  note c2 = convert_str_to_bit_decodes [of echo_env "''Trace''" "''tRACE''",
      THEN conjunct2, THEN conjunct2, THEN conjunct1, THEN mp, OF h2]
  note c3 = convert_str_to_bit_decodes [of echo_env "'' trace |  badidea''" "''trace|badidea''",
      THEN conjunct2, THEN conjunct2, THEN conjunct2, THEN conjunct1, THEN mp, OF h3]
  note c4 = convert_str_to_bit_decodes
      [of echo_env "''trace|a2g|geocentric''" "''geocentric|trace|a2g''",
      THEN conjunct2, THEN conjunct2, THEN conjunct2, THEN conjunct2, THEN conjunct1,
      THEN mp, OF h4]
  note c5 = trans [OF convert_str_to_bit_decodes
      [of echo_env "''trace|a2g|geocentric''" "[]", THEN conjunct1] v]
  show ?thesis
    by (intro conjI) (rule c1, rule c2, rule c3, rule c4, rule c5)
qed

section \<open>Heights the coefficients do not cover\<close>

lemma test_height_blocked:
  assumes "bit_code AND (TRACE env OR ALLOWTRACE env OR BADIDEA env) = 0"
      and "py_greater height (Num 2000)"
  shows "fst (test_height env height bit_code w) = False"
    and "native (snd (test_height env height bit_code w)) = native w"
    and "native_calls (events (snd (test_height env height bit_code w))) = native_calls (events w)"
  using assms
  by (simp_all add: test_height_def high_alt_coeff_def Let_def log_event_def native_calls_def)

text \<open>
  Claim C1. For every height above 2000 km and every method code, given as an integer or as a
  string, that has none of the flags \<^verbatim>\<open>TRACE\<close>, \<^verbatim>\<open>ALLOWTRACE\<close> and \<^verbatim>\<open>BADIDEA\<close>,
  \<^verbatim>\<open>convert_latlon\<close> (called with a date or a datetime) raises nothing, returns three
  not-a-number values, and leaves the native library alone: no primitive is called and its state
  is unchanged. Only the error message of \<^verbatim>\<open>test_height\<close> is logged.
\<close>

theorem convert_latlon_blocked_height:
  assumes "dtime \<noteq> PyOtherTime"
      and "method_bit_code env method_code = Inr bit_code"
      and "bit_code AND (TRACE env OR ALLOWTRACE env OR BADIDEA env) = 0"
      and "py_greater height (Num 2000)"
  shows "fst (convert_latlon env in_lat in_lon height dtime method_code w) = Inr (NaN, NaN, NaN) \<and>
         native (snd (convert_latlon env in_lat in_lon height dtime method_code w)) = native w \<and>
         native_calls (events (snd (convert_latlon env in_lat in_lon height dtime method_code w)))
           = native_calls (events w)"
proof -
  obtain t where t: "test_time dtime = Inr t"
    using assms(1) by (cases dtime) (simp_all add: test_time_def)
  obtain g w1 where th: "test_height env height bit_code w = (g, w1)"
    by (cases "test_height env height bit_code w")
  from test_height_blocked [OF assms(3,4), of w] th
  have g: "g = False" and n: "native w1 = native w"
    and c: "native_calls (events w1) = native_calls (events w)"
    by simp_all
  have "convert_latlon env in_lat in_lon height dtime method_code w = (Inr (NaN, NaN, NaN), w1)"
    by (simp add: convert_latlon_def t assms(2) th g)
  with n c show ?thesis by simp
qed

text \<open>
  The theorem at 3000 km with the method \<^verbatim>\<open>"g2a|geocentric"\<close>, which decodes to 16.
\<close>

theorem convert_latlon_blocked_height_witness:
  "fst (convert_latlon echo_env (Num 45) (Num 10) (Num 3000) new_year_2015 (MethodStr ''g2a|geocentric'') world0)
     = Inr (NaN, NaN, NaN) \<and>
   native_calls (events (snd (convert_latlon echo_env (Num 45) (Num 10) (Num 3000) new_year_2015
     (MethodStr ''g2a|geocentric'') world0))) = []"
proof -
  have h1: "new_year_2015 \<noteq> PyOtherTime"
    by (simp add: new_year_2015_def)
  have h2: "method_bit_code echo_env (MethodStr ''g2a|geocentric'') = Inr 16"
    by code_simp
  have h3: "(16::int) AND (TRACE echo_env OR ALLOWTRACE echo_env OR BADIDEA echo_env) = 0"
    by (simp add: echo_env_def)
  have h4: "py_greater (Num 3000) (Num 2000)"
    by (simp add: py_greater_def)
  have e: "native_calls (events world0) = []"
    by (simp add: world0_def native_calls_def)
  from convert_latlon_blocked_height [OF h1 h2 h3 h4, of "Num 45" "Num 10" world0] e
  show ?thesis by simp
qed

section \<open>The facade and a missing longitude\<close>

lemma test_height_mlt_calls:
  "filter is_mlt_call (events (snd (test_height env height bit_code w))) =
   filter is_mlt_call (events w)"
  by (simp add: test_height_def Let_def log_event_def)

lemma set_current_datetime_mlt_calls:
  "filter is_mlt_call (events (snd (set_current_datetime env t w))) =
   filter is_mlt_call (events w)"
  by (simp add: set_current_datetime_def call_set_datetime_def
      split: prod.splits sum.splits py_error.splits)

lemma call_convert_mlt_calls:
  "filter is_mlt_call (events (snd (call_convert env bit_code p w))) =
   filter is_mlt_call (events w)"
  by (simp add: call_convert_def split: prod.splits)

lemma convert_latlon_mlt_calls:
  "filter is_mlt_call (events (snd (convert_latlon env in_lat in_lon height dtime method_code w))) =
   filter is_mlt_call (events w)"
proof -
  have a: "\<And>g w1. test_height env height bit_code w = (g, w1) \<Longrightarrow>
      filter is_mlt_call (events w1) = filter is_mlt_call (events w)" for bit_code
    using test_height_mlt_calls [of env height bit_code w] by simp
  have b: "\<And>r w2. set_current_datetime env t w1 = (r, w2) \<Longrightarrow>
      filter is_mlt_call (events w2) = filter is_mlt_call (events w1)" for t w1
    using set_current_datetime_mlt_calls [of env t w1] by simp
  have c: "\<And>r w3. call_convert env bit_code p w2 = (r, w3) \<Longrightarrow>
      filter is_mlt_call (events w3) = filter is_mlt_call (events w2)" for bit_code p w2
    using call_convert_mlt_calls [of env bit_code p w2] by simp
  show ?thesis
    unfolding convert_latlon_def
    by (auto simp: log_event_def split: sum.splits prod.splits dest!: a b c)
qed

text \<open>
  Claim C6. Whenever the point conversion that \<^verbatim>\<open>get_aacgm_coord\<close> makes returns a
  not-a-number magnetic longitude, the facade returns that latitude and longitude with a
  not-a-number magnetic local time, and the effects are those of the point conversion alone:
  neither MLT primitive is called.
\<close>

theorem get_aacgm_coord_missing_longitude:
  assumes "convert_latlon env glat glon height dtime (MethodStr (''G2A|'' @ method)) w
             = (Inr (mlat, mlon, r), w1)"
      and "np_isnan mlon"
  shows "get_aacgm_coord env glat glon height dtime method w = (Inr (mlat, mlon, PyFloat NaN), w1) \<and>
         filter is_mlt_call (events w1) = filter is_mlt_call (events w)"
proof
  show "get_aacgm_coord env glat glon height dtime method w = (Inr (mlat, mlon, PyFloat NaN), w1)"
    using assms by (simp add: get_aacgm_coord_def)
  show "filter is_mlt_call (events w1) = filter is_mlt_call (events w)"
    using convert_latlon_mlt_calls
      [of env glat glon height dtime "MethodStr (''G2A|'' @ method)" w] assms(1)
    by simp
qed

text \<open>
  The theorem on a run where \<^verbatim>\<open>convert\<close> raises (latitude 10): the longitude is missing,
  so is the magnetic local time, and \<^verbatim>\<open>mlt_convert\<close> is not among the calls.
\<close>

theorem get_aacgm_coord_missing_longitude_witness:
  "get_aacgm_coord echo_env (Num 10) (Num 20) (Num 100) new_year_2015 ''TRACE'' world0
   = (Inr (NaN, NaN, PyFloat NaN),
      \<lparr>native = (),
       events = [Call_set_datetime 2015 1 1 0 0 0, Call_convert (Num 10) (Num 20) (Num 100) 2,
                 LogWarning ''unable to perform conversion'']\<rparr>)"
proof -
  have run: "convert_latlon echo_env (Num 10) (Num 20) (Num 100) new_year_2015
      (MethodStr (''G2A|'' @ ''TRACE'')) world0
   = (Inr (NaN, NaN, NaN),
      \<lparr>native = (),
       events = [Call_set_datetime 2015 1 1 0 0 0, Call_convert (Num 10) (Num 20) (Num 100) 2,
                 LogWarning ''unable to perform conversion'']\<rparr>)"
    by code_simp
  have nan: "np_isnan NaN"
    by simp
  show ?thesis
    by (rule get_aacgm_coord_missing_longitude [OF run nan, THEN conjunct1])
qed

section \<open>The latitude tests\<close>

lemma magnitude_at_mostD:
  "magnitude_at_most c x \<Longrightarrow> \<exists>r. x = Num r \<and> \<bar>r\<bar> \<le> c"
  by (cases x) (simp_all add: magnitude_at_most_def)

lemma foldl_max_bounded:
  assumes "\<forall>x \<in> set xs. magnitude_at_most c x" and "m0 \<le> c"
  shows "\<exists>m. foldl py_max2 (Num m0) (map py_abs xs) = Num m \<and> m0 \<le> m \<and> m \<le> c \<and>
             (\<forall>x \<in> set xs. magnitude_at_most m x)"
  using assms
proof (induction xs arbitrary: m0)
  case Nil
  then show ?case by simp
next
  case (Cons x xs)
  from Cons.prems(1) obtain r where r: "x = Num r" "\<bar>r\<bar> \<le> c"
    by (auto dest: magnitude_at_mostD)
  let ?m1 = "if m0 < \<bar>r\<bar> then \<bar>r\<bar> else m0"
  have step: "py_max2 (Num m0) (py_abs x) = Num ?m1"
    using r by simp
  have "?m1 \<le> c" using r Cons.prems(2) by simp
  with Cons.IH [of ?m1] Cons.prems(1)
  obtain m where m: "foldl py_max2 (Num ?m1) (map py_abs xs) = Num m" "?m1 \<le> m" "m \<le> c"
      "\<forall>x \<in> set xs. magnitude_at_most m x"
    by auto
  have "magnitude_at_most m x"
    using r m(2) by (simp add: magnitude_at_most_def split: if_splits)
  moreover have "m0 \<le> m" using m(2) by (simp split: if_splits)
  ultimately show ?case
    using m step by (simp del: py_max2.simps)
qed

lemma np_max_bounded:
  assumes "\<forall>x \<in> set xs. magnitude_at_most c x" and "xs \<noteq> []"
  shows "\<exists>m. np_max (map py_abs xs) = Inr (Num m) \<and> m \<le> c \<and>
             (\<forall>x \<in> set xs. magnitude_at_most m x)"
proof -
  from assms(2) obtain x ys where xs: "xs = x # ys" by (cases xs) auto
  from assms(1) xs obtain r where r: "x = Num r" "\<bar>r\<bar> \<le> c"
    by (auto dest: magnitude_at_mostD)
  from foldl_max_bounded [of ys c "\<bar>r\<bar>"] assms(1) xs r
  obtain m where m: "foldl py_max2 (Num \<bar>r\<bar>) (map py_abs ys) = Num m" "\<bar>r\<bar> \<le> m" "m \<le> c"
      "\<forall>x \<in> set ys. magnitude_at_most m x"
    by auto
  have "magnitude_at_most m x" using r m(2) by (simp add: magnitude_at_most_def)
  with m xs r show ?thesis
    by (simp add: np_max_def)
qed

lemma clip_is_scalar_test:
  assumes "\<bar>r\<bar> \<le> 901 / 10"
  shows "convert_latlon_latitude (Num r) = Inr (np_clip1 (- 90) 90 (Num r))"
  using assms
  by (auto simp: convert_latlon_latitude_def py_greater_def sgn_real_def min_def max_def)

lemma low_is_scalar_test:
  assumes "\<bar>r\<bar> \<le> 90"
  shows "convert_latlon_latitude (Num r) = Inr (Num r)"
  using assms
  by (simp add: convert_latlon_latitude_def py_greater_def)

text \<open>
  Claim C10. On an array all of whose latitudes have magnitude at most 90.1, the array test
  succeeds, keeps the shape and the size, and leaves at every index what the scalar test
  returns for the latitude at that index.
\<close>

theorem latitude_tests_agree:
  assumes "\<forall>x \<in> set (flat a). magnitude_at_most (901 / 10) x"
      and "i < length (flat a)"
  shows "\<exists>b. convert_latlon_arr_latitude a = Inr b \<and> shape b = shape a \<and>
             length (flat b) = length (flat a) \<and>
             convert_latlon_latitude (flat a ! i) = Inr (flat b ! i)"
proof -
  from assms(2) have ne: "flat a \<noteq> []" by auto
  from np_max_bounded [OF assms(1) ne]
  obtain m where m: "np_max (map py_abs (flat a)) = Inr (Num m)" "m \<le> 901 / 10"
      "\<forall>x \<in> set (flat a). magnitude_at_most m x"
    by auto
  from assms(2) have mem: "flat a ! i \<in> set (flat a)" by simp
  with assms(1) have "magnitude_at_most (901 / 10) (flat a ! i)" by blast
  then obtain r where r: "flat a ! i = Num r" "\<bar>r\<bar> \<le> 901 / 10"
    by (blast dest: magnitude_at_mostD)
  from m(3) mem have "magnitude_at_most m (flat a ! i)" by blast
  with r(1) have rm: "\<bar>r\<bar> \<le> m"
    by (simp add: magnitude_at_most_def)
  show ?thesis
  proof (cases "90 < m")
    case True
    with m have "convert_latlon_arr_latitude a
        = Inr (a\<lparr>flat := map (np_clip1 (- 90) 90) (flat a)\<rparr>)"
      by (simp add: convert_latlon_arr_latitude_def py_greater_def)
    moreover have "convert_latlon_latitude (flat a ! i)
        = Inr (map (np_clip1 (- 90) 90) (flat a) ! i)"
      using clip_is_scalar_test [OF r(2)] r(1) assms(2) by simp
    ultimately show ?thesis by simp
  next
    case False
    with m have "convert_latlon_arr_latitude a = Inr a"
      by (simp add: convert_latlon_arr_latitude_def py_greater_def)
    moreover from False rm have "convert_latlon_latitude (flat a ! i) = Inr (flat a ! i)"
      using low_is_scalar_test [of r] r(1) by simp
    ultimately show ?thesis by simp
  qed
qed

text \<open>The theorem on the array \<^verbatim>\<open>[90.05, -45, -90.1]\<close>, at its last index.\<close>

theorem latitude_tests_agree_witness:
  "\<exists>b. convert_latlon_arr_latitude (np_array1 [Num (9005 / 100), Num (- 45), Num (- (901 / 10))]) = Inr b \<and>
       shape b = [3] \<and> length (flat b) = 3 \<and>
       convert_latlon_latitude (Num (- (901 / 10))) = Inr (flat b ! 2)"
proof -
  have h1: "\<forall>x \<in> set (flat (np_array1 [Num (9005 / 100), Num (- 45), Num (- (901 / 10))])).
              magnitude_at_most (901 / 10) x"
    by (simp add: np_array1_def magnitude_at_most_def)
  have h2: "2 < length (flat (np_array1 [Num (9005 / 100), Num (- 45), Num (- (901 / 10))]))"
    by (simp add: np_array1_def)
  let ?a = "np_array1 [Num (9005 / 100), Num (- 45), Num (- (901 / 10))]"
  from latitude_tests_agree [OF h1 h2]
  obtain b where b: "convert_latlon_arr_latitude ?a = Inr b" "shape b = shape ?a"
      "length (flat b) = length (flat ?a)"
      "convert_latlon_latitude (flat ?a ! 2) = Inr (flat b ! 2)"
    by blast
  have "shape ?a = [3]" and "length (flat ?a) = 3" and "flat ?a ! 2 = Num (- (901 / 10))"
    by (simp_all add: np_array1_def)
  with b have "convert_latlon_arr_latitude ?a = Inr b \<and> shape b = [3] \<and>
      length (flat b) = 3 \<and> convert_latlon_latitude (Num (- (901 / 10))) = Inr (flat b ! 2)"
    by simp
  then show ?thesis ..
qed

text \<open>
  Claim C2 (a defect of the array converter). \<^verbatim>\<open>np.abs(in_lat).max()\<close> is not-a-number as
  soon as one latitude of the batch is, both comparisons are then false, and the latitude test
  is skipped for the whole batch: beside a not-a-number latitude, 95 degrees is neither
  refused nor clamped, and \<^verbatim>\<open>convert\<close> is called with it, while the scalar converter
  refuses 95 degrees.
\<close>

theorem latitude_test_skipped_beside_nan:
  "convert_latlon_arr_latitude (np_array1 [NaN, Num 95]) = Inr (np_array1 [NaN, Num 95]) \<and>
   convert_latlon_latitude (Num 95) = Inl (ValueError ''unrealistic latitude'') \<and>
   fst (convert_latlon_arr echo_env (np_array1 [NaN, Num 95]) (np_array1 [Num 0, Num 0])
         (np_array1 [Num 100, Num 100]) new_year_2015 (MethodStr ''G2A'') world0)
     = Inr (np_array1 [NaN, Num 95], np_array1 [Num 0, Num 0], np_array1 [Num 100, Num 100]) \<and>
   convert_points (events (snd (convert_latlon_arr echo_env (np_array1 [NaN, Num 95])
         (np_array1 [Num 0, Num 0]) (np_array1 [Num 100, Num 100]) new_year_2015
         (MethodStr ''G2A'') world0)))
     = [(NaN, Num 0, Num 100), (NaN, Num 0, Num 100), (Num 95, Num 0, Num 100)]"
  by code_simp

section \<open>Inputs of different shapes\<close>

lemma check_shapes_three:
  assumes "\<not> (shape in_lat = shape in_lon \<and> shape in_lat = shape height)"
      and "shape in_lat \<noteq> [1]" and "shape in_lon \<noteq> [1]" and "shape height \<noteq> [1]"
  shows "check_shapes in_lat in_lon height
           = Inl (ValueError ''lat, lon, and height arrays are mismatched'')"
  using assms by (simp add: check_shapes_def)

text \<open>
  Claim C4, as the code has it. When the three shapes left by the broadcasting step are not
  all the same and none of them is \<^verbatim>\<open>(1,)\<close>, the call raises the \<^verbatim>\<open>ValueError\<close> that
  names all three inputs, whether the three shapes differ from one another or two of them
  agree; nothing else has been done by then.
\<close>

theorem mismatch_names_all_three:
  assumes "broadcast_inputs lat0 lon0 height0 w = ((in_lat, in_lon, height), w0)"
      and "\<not> (shape in_lat = shape in_lon \<and> shape in_lat = shape height)"
      and "shape in_lat \<noteq> [1]" and "shape in_lon \<noteq> [1]" and "shape height \<noteq> [1]"
  shows "convert_latlon_arr env lat0 lon0 height0 dtime method_code w
           = (Inl (ValueError ''lat, lon, and height arrays are mismatched''), w0)"
  using check_shapes_three [OF assms(2-5)] assms(1)
  by (simp add: convert_latlon_arr_def)

text \<open>The theorem on shapes \<^verbatim>\<open>(2, 2)\<close>, \<^verbatim>\<open>(4,)\<close> and \<^verbatim>\<open>(4,)\<close>.\<close>

theorem mismatch_names_all_three_witness:
  "convert_latlon_arr echo_env
     \<lparr>shape = [2, 2], flat = [Num 1, Num 2, Num 3, Num 4]\<rparr>
     (np_array1 [Num 1, Num 2, Num 3, Num 4])
     (np_array1 [Num 100, Num 100, Num 100, Num 100])
     new_year_2015 (MethodStr ''G2A'') world0
   = (Inl (ValueError ''lat, lon, and height arrays are mismatched''), world0)"
proof -
  let ?lat = "\<lparr>shape = [2, 2], flat = [Num 1, Num 2, Num 3, Num 4]\<rparr>"
  let ?lon = "np_array1 [Num 1, Num 2, Num 3, Num 4]"
  let ?h = "np_array1 [Num 100, Num 100, Num 100, Num 100]"
  have h1: "broadcast_inputs ?lat ?lon ?h world0 = ((?lat, ?lon, ?h), world0)"
    by (simp add: broadcast_inputs_def np_array1_def)
  have h2: "\<not> (shape ?lat = shape ?lon \<and> shape ?lat = shape ?h)"
    by (simp add: np_array1_def)
  have h3: "shape ?lat \<noteq> [1]" and h4: "shape ?lon \<noteq> [1]" and h5: "shape ?h \<noteq> [1]"
    by (simp_all add: np_array1_def)
  show ?thesis
    by (rule mismatch_names_all_three [OF h1 h2 h3 h4 h5])
qed

text \<open>
  Claim C4 as the spec states it fails: for latitudes of shape \<^verbatim>\<open>(3,)\<close>, longitudes of
  shape \<^verbatim>\<open>(3,)\<close> and heights of shape \<^verbatim>\<open>(4,)\<close> the error names all three inputs, not
  the height and one of the other two.
\<close>

theorem mismatch_3_3_4_names_all_three:
  "fst (convert_latlon_arr echo_env
          (np_array1 [Num 1, Num 2, Num 3]) (np_array1 [Num 1, Num 2, Num 3])
          (np_array1 [Num 100, Num 100, Num 100, Num 100])
          new_year_2015 (MethodStr ''G2A'') world0)
   = Inl (ValueError ''lat, lon, and height arrays are mismatched'')"
  by code_simp

text \<open>
  With exactly two shapes other than \<^verbatim>\<open>(1,)\<close> the call raises \<^verbatim>\<open>NameError\<close>, whether
  the two agree or not: line 337 reads \<^verbatim>\<open>array_dict\<close>, a name that is bound nowhere.
\<close>

lemma two_arrays_name_error:
  "fst (convert_latlon_arr echo_env
          (np_array1 [Num 1]) (np_array1 [Num 1, Num 2, Num 3])
          (np_array1 [Num 100, Num 100, Num 100, Num 100])
          new_year_2015 (MethodStr ''G2A'') world0)
   = Inl (NameError ''name array_dict is not defined'') \<and>
   fst (convert_latlon_arr echo_env
          (np_array1 [Num 1]) (np_array1 [Num 1, Num 2, Num 3])
          (np_array1 [Num 100, Num 100, Num 100])
          new_year_2015 (MethodStr ''G2A'') world0)
   = Inl (NameError ''name array_dict is not defined'')"
  by code_simp

section \<open>A batch and a failure of the native conversion\<close>

lemma call_convert_throws:
  assumes "\<forall>s. \<exists>e s'. convert env x y z bit_code s = (Inl e, s')"
  shows "\<exists>e w'. call_convert env bit_code (x, y, z) w = (Inl e, w')"
proof -
  from assms obtain e s' where "convert env x y z bit_code (native w) = (Inl e, s')"
    by blast
  then show ?thesis by (simp add: call_convert_def)
qed

lemma vectorize_loop_raises:
  assumes "a \<in> set as" and "\<forall>w. \<exists>e w'. f a w = (Inl e, w')"
  shows "\<exists>e w'. vectorize_loop f as w = (Inl e, w')"
  using assms(1)
proof (induction as arbitrary: w)
  case Nil
  then show ?case by simp
next
  case (Cons b bs)
  show ?case
  proof (cases "f b w")
    case (Pair r w1)
    show ?thesis
    proof (cases r)
      case (Inl e)
      with Pair show ?thesis by simp
    next
      case (Inr v)
      have "b \<noteq> a"
      proof
        assume "b = a"
        with assms(2) Pair Inr show False by (metis Inl_Inr_False fst_conv)
      qed
      with Cons.prems have "a \<in> set bs" by simp
      from Cons.IH [OF this, of w1] obtain e w' where "vectorize_loop f bs w1 = (Inl e, w')"
        by blast
      with Pair Inr show ?thesis by simp
    qed
  qed
qed

lemma convert_vectorised_raises:
  assumes "batch_points in_lat in_lon height = Some points"
      and "(x, y, z) \<in> set points"
      and "\<forall>s. \<exists>e s'. convert env x y z bit_code s = (Inl e, s')"
  shows "\<exists>e w'. convert_vectorised env in_lat in_lon height bit_code w = (Inl e, w')"
proof -
  have loop: "\<exists>e w'. vectorize_loop (call_convert env bit_code) points w1 = (Inl e, w')" for w1
    by (rule vectorize_loop_raises [OF assms(2)]) (simp add: call_convert_throws [OF assms(3)])
  show ?thesis
  proof (cases "flat in_lat")
    case Nil
    then show ?thesis by (simp add: convert_vectorised_def)
  next
    case la: (Cons a as)
    show ?thesis
    proof (cases "flat in_lon")
      case Nil
      with la show ?thesis by (simp add: convert_vectorised_def)
    next
      case lo: (Cons b bs)
      show ?thesis
      proof (cases "flat height")
        case Nil
        with la lo show ?thesis by (simp add: convert_vectorised_def)
      next
        case hi: (Cons c cs)
        obtain r w1 where p: "call_convert env bit_code (a, b, c) w = (r, w1)"
          by (cases "call_convert env bit_code (a, b, c) w")
        show ?thesis
        proof (cases r)
          case (Inl e)
          with la lo hi p show ?thesis by (simp add: convert_vectorised_def)
        next
          case (Inr v)
          from loop [of w1] obtain e w' where
            "vectorize_loop (call_convert env bit_code) points w1 = (Inl e, w')" by blast
          with la lo hi p Inr assms(1) show ?thesis
            by (simp add: convert_vectorised_def)
        qed
      qed
    qed
  qed
qed

text \<open>
  Claim C3, as the code has it. Let a call of \<^verbatim>\<open>convert_latlon_arr\<close> reach the conversion
  (the shapes, the time, the method, the height and the latitudes pass, and the epoch is set).
  If the native \<^verbatim>\<open>convert\<close> raises at one point of the batch, the call raises nothing and
  returns the three arrays of not-a-number made at lines 345-347: every element is missing,
  not only the one that failed.
\<close>

theorem one_failure_blanks_the_batch:
  assumes "broadcast_inputs lat0 lon0 height0 w = ((in_lat, in_lon, height), w0)"
      and "check_shapes in_lat in_lon height = Inr ()"
      and "test_time dtime = Inr t"
      and "method_bit_code env method_code = Inr bit_code"
      and "np_nanmax (flat height) = Inr hmax"
      and "test_height env hmax bit_code w0 = (True, w1)"
      and "convert_latlon_arr_latitude in_lat = Inr lat"
      and "set_current_datetime env t w1 = (Inr (), w2)"
      and "batch_points lat (in_lon\<lparr>flat := map constrain_longitude (flat in_lon)\<rparr>) height
             = Some points"
      and "(x, y, z) \<in> set points"
      and "\<forall>s. \<exists>e s'. convert env x y z bit_code s = (Inl e, s')"
  shows "fst (convert_latlon_arr env lat0 lon0 height0 dtime method_code w)
           = Inr (np_full_nan (shape in_lat), np_full_nan (shape in_lon),
                  np_full_nan (shape height))"
proof -
  from convert_vectorised_raises [OF assms(9,10,11), of w2]
  obtain e w3 where
    "convert_vectorised env lat (in_lon\<lparr>flat := map constrain_longitude (flat in_lon)\<rparr>)
       height bit_code w2 = (Inl e, w3)"
    by blast
  with assms(1-8) show ?thesis
    by (simp add: convert_latlon_arr_def)
qed

text \<open>
  The theorem on a batch of two points, the second at latitude 10, where \<^verbatim>\<open>convert\<close>
  raises.
\<close>

theorem one_failure_blanks_the_batch_witness:
  "fst (convert_latlon_arr echo_env (np_array1 [Num 20, Num 10]) (np_array1 [Num 0, Num 0])
          (np_array1 [Num 100, Num 100]) new_year_2015 (MethodStr ''G2A'') world0)
   = Inr (np_full_nan (shape (np_array1 [Num 20, Num 10])),
          np_full_nan (shape (np_array1 [Num 0, Num 0])),
          np_full_nan (shape (np_array1 [Num 100, Num 100])))"
proof -
  let ?lat = "np_array1 [Num 20, Num 10]"
  let ?lon = "np_array1 [Num 0, Num 0]"
  let ?h = "np_array1 [Num 100, Num 100]"
  let ?t = "\<lparr>year = 2015, month = 1, day = 1, hour = 0, minute = 0, second = 0\<rparr>"
  let ?w2 = "\<lparr>native = (), events = [Call_set_datetime 2015 1 1 0 0 0]\<rparr>"
  have h1: "broadcast_inputs ?lat ?lon ?h world0 = ((?lat, ?lon, ?h), world0)"
    by code_simp
  have h2: "check_shapes ?lat ?lon ?h = Inr ()"
    by code_simp
  have h3: "test_time new_year_2015 = Inr ?t"
    by code_simp
  have h4: "method_bit_code echo_env (MethodStr ''G2A'') = Inr 0"
    by code_simp
  have h5: "np_nanmax (flat ?h) = Inr (Num 100)"
    by code_simp
  have h6: "test_height echo_env (Num 100) 0 world0 = (True, world0)"
    by code_simp
  have h7: "convert_latlon_arr_latitude ?lat = Inr ?lat"
    by code_simp
  have h8: "set_current_datetime echo_env ?t world0 = (Inr (), ?w2)"
    by code_simp
  have h9: "batch_points ?lat (?lon\<lparr>flat := map constrain_longitude (flat ?lon)\<rparr>) ?h
              = Some [(Num 20, Num 0, Num 100), (Num 10, Num 0, Num 100)]"
    by code_simp
  have h10: "(Num 10, Num 0, Num 100) \<in> set [(Num 20, Num 0, Num 100), (Num 10, Num 0, Num 100)]"
    by simp
  have h11: "\<forall>s. \<exists>e s'. convert echo_env (Num 10) (Num 0) (Num 100) 0 s = (Inl e, s')"
    by (simp add: echo_env_def)
  show ?thesis
    by (rule one_failure_blanks_the_batch [OF h1 h2 h3 h4 h5 h6 h7 h8 h9 h10 h11])
qed

text \<open>
  Claim C3 as the spec states it fails: of three points, \<^verbatim>\<open>convert\<close> raises at the second
  only (it returns a value at the first and at the third), and all three elements of every
  output are not-a-number.
\<close>

theorem failure_is_not_isolated:
  "fst (convert_latlon_arr echo_env (np_array1 [Num 30, Num 10, Num 40])
          (np_array1 [Num 0, Num 0, Num 0]) (np_array1 [Num 100, Num 100, Num 100])
          new_year_2015 (MethodStr ''G2A'') world0)
   = Inr (np_array1 [NaN, NaN, NaN], np_array1 [NaN, NaN, NaN], np_array1 [NaN, NaN, NaN]) \<and>
   fst (convert echo_env (Num 30) (Num 0) (Num 100) 0 ()) = Inr (Num 30, Num 0, Num 100) \<and>
   fst (convert echo_env (Num 40) (Num 0) (Num 100) 0 ()) = Inr (Num 40, Num 0, Num 100)"
  by code_simp

section \<open>One height decision for the batch\<close>

lemma convert_points_append:
  "convert_points (es @ es') = convert_points es @ convert_points es'"
  by (induction es rule: convert_points.induct) simp_all

lemma convert_codes_append:
  "convert_codes (es @ es') = convert_codes es @ convert_codes es'"
  by (induction es rule: convert_codes.induct) simp_all

lemma broadcast_inputs_effects:
  assumes "broadcast_inputs lat0 lon0 height0 w = (arrays, w0)"
  shows "native w0 = native w" and "native_calls (events w0) = native_calls (events w)"
    and "convert_points (events w0) = convert_points (events w)"
    and "convert_codes (events w0) = convert_codes (events w)"
  using assms
  by (auto simp: broadcast_inputs_def Let_def log_event_def native_calls_def
      convert_points_append convert_codes_append split: if_splits)

lemma test_height_effects:
  assumes "test_height env height bit_code w = (g, w1)"
  shows "native w1 = native w" and "native_calls (events w1) = native_calls (events w)"
    and "convert_points (events w1) = convert_points (events w)"
    and "convert_codes (events w1) = convert_codes (events w)"
  using assms
  by (auto simp: test_height_def Let_def log_event_def native_calls_def
      convert_points_append convert_codes_append split: if_splits)

lemma set_current_datetime_effects:
  assumes "set_current_datetime env t w = (r, w1)"
  shows "convert_points (events w1) = convert_points (events w)"
    and "convert_codes (events w1) = convert_codes (events w)"
  using assms
  by (auto simp: set_current_datetime_def call_set_datetime_def
      convert_points_append convert_codes_append
      split: prod.splits sum.splits py_error.splits)

lemma call_convert_returns:
  assumes "\<forall>s. \<exists>r s'. convert env x y z bit_code s = (Inr r, s')"
  shows "\<exists>r w'. call_convert env bit_code (x, y, z) w = (Inr r, w') \<and>
           events w' = events w @ [Call_convert x y z bit_code]"
proof -
  from assms obtain r s' where "convert env x y z bit_code (native w) = (Inr r, s')"
    by blast
  then have "call_convert env bit_code (x, y, z) w
      = (Inr r, \<lparr>native = s', events = events w @ [Call_convert x y z bit_code]\<rparr>)"
    by (simp add: call_convert_def)
  then show ?thesis by fastforce
qed

lemma vectorize_loop_calls_every_point:
  assumes "\<forall>p \<in> set points. \<forall>s. \<exists>r s'.
             convert env (fst p) (fst (snd p)) (snd (snd p)) bit_code s = (Inr r, s')"
  shows "\<exists>outs w'. vectorize_loop (call_convert env bit_code) points w = (Inr outs, w') \<and>
           convert_points (events w') = convert_points (events w) @ points \<and>
           convert_codes (events w') = convert_codes (events w) @ replicate (length points) bit_code"
  using assms
proof (induction points arbitrary: w)
  case Nil
  then show ?case by simp
next
  case (Cons p ps)
  obtain x y z where p: "p = (x, y, z)" by (cases p) auto
  from Cons.prems p have "\<forall>s. \<exists>r s'. convert env x y z bit_code s = (Inr r, s')"
    by simp
  from call_convert_returns [OF this, of w]
  obtain r w1 where c: "call_convert env bit_code (x, y, z) w = (Inr r, w1)"
      "events w1 = events w @ [Call_convert x y z bit_code]"
    by blast
  from Cons.prems have "\<forall>p \<in> set ps. \<forall>s. \<exists>r s'.
      convert env (fst p) (fst (snd p)) (snd (snd p)) bit_code s = (Inr r, s')"
    by simp
  from Cons.IH [OF this, of w1]
  obtain outs w' where l: "vectorize_loop (call_convert env bit_code) ps w1 = (Inr outs, w')"
      "convert_points (events w') = convert_points (events w1) @ ps"
      "convert_codes (events w') = convert_codes (events w1) @ replicate (length ps) bit_code"
    by blast
  from c l p show ?case
    by (simp add: convert_points_append convert_codes_append replicate_append_same)
qed

lemma convert_vectorised_calls_every_point:
  assumes "batch_points a b c = Some points"
      and "flat a = x # xs" and "flat b = y # ys" and "flat c = z # zs"
      and "\<forall>p \<in> set ((x, y, z) # points). \<forall>s. \<exists>r s'.
             convert env (fst p) (fst (snd p)) (snd (snd p)) bit_code s = (Inr r, s')"
  shows "\<exists>outs w'. convert_vectorised env a b c bit_code w = (Inr outs, w') \<and>
           convert_points (events w') = convert_points (events w) @ (x, y, z) # points \<and>
           convert_codes (events w')
             = convert_codes (events w) @ replicate (Suc (length points)) bit_code"
proof -
  from assms(5) have "\<forall>s. \<exists>r s'. convert env x y z bit_code s = (Inr r, s')"
    by simp
  from call_convert_returns [OF this, of w]
  obtain r w1 where p: "call_convert env bit_code (x, y, z) w = (Inr r, w1)"
      "events w1 = events w @ [Call_convert x y z bit_code]"
    by blast
  from assms(5) have "\<forall>p \<in> set points. \<forall>s. \<exists>r s'.
      convert env (fst p) (fst (snd p)) (snd (snd p)) bit_code s = (Inr r, s')"
    by simp
  from vectorize_loop_calls_every_point [OF this, of w1]
  obtain outs w' where l: "vectorize_loop (call_convert env bit_code) points w1 = (Inr outs, w')"
      "convert_points (events w') = convert_points (events w1) @ points"
      "convert_codes (events w') = convert_codes (events w1) @ replicate (length points) bit_code"
    by blast
  have "convert_vectorised env a b c bit_code w
      = (Inr (\<lparr>shape = common_shape a b c, flat = map fst outs\<rparr>,
              \<lparr>shape = common_shape a b c, flat = map (fst \<circ> snd) outs\<rparr>,
              \<lparr>shape = common_shape a b c, flat = map (snd \<circ> snd) outs\<rparr>), w')"
    using assms(1-4) p(1) l(1) by (simp add: convert_vectorised_def Let_def)
  moreover have "convert_points (events w') = convert_points (events w) @ (x, y, z) # points"
    using l(2) p(2) by (simp add: convert_points_append)
  moreover have "convert_codes (events w')
      = convert_codes (events w) @ replicate (Suc (length points)) bit_code"
    using l(3) p(2) by (simp add: convert_codes_append)
  ultimately show ?thesis by blast
qed

text \<open>
  Claim C8, as the code has it. \<^verbatim>\<open>convert_latlon_arr\<close> tests one height, the greatest of
  the batch that is a number, once. If the test fails, the call returns arrays of not-a-number
  and the native library is not touched. If it passes, no height is tested again: once the
  latitudes pass and the epoch is set, and provided \<^verbatim>\<open>convert\<close> raises at no point of the
  batch, \<^verbatim>\<open>convert\<close> is called with the batch's bit code on the first point (the call by
  which \<^verbatim>\<open>numpy\<close> learns the output types) and then on every point, in order.
\<close>

theorem batch_height_decision:
  assumes "broadcast_inputs lat0 lon0 height0 w = ((in_lat, in_lon, height), w0)"
      and "check_shapes in_lat in_lon height = Inr ()"
      and "test_time dtime = Inr t"
      and "method_bit_code env method_code = Inr bit_code"
      and "np_nanmax (flat height) = Inr hmax"
      and "test_height env hmax bit_code w0 = (good_height, w1)"
  shows "(\<not> good_height \<longrightarrow>
            convert_latlon_arr env lat0 lon0 height0 dtime method_code w
              = (Inr (np_full_nan (shape in_lat), np_full_nan (shape in_lon),
                      np_full_nan (shape height)), w1) \<and>
            native w1 = native w \<and> native_calls (events w1) = native_calls (events w)) \<and>
         (good_height \<longrightarrow>
            convert_latlon_arr_latitude in_lat = Inr lat \<longrightarrow>
            set_current_datetime env t w1 = (Inr (), w2) \<longrightarrow>
            batch_points lat (in_lon\<lparr>flat := map constrain_longitude (flat in_lon)\<rparr>) height
              = Some points \<longrightarrow>
            flat lat = x # xs \<longrightarrow> flat in_lon = y # ys \<longrightarrow> flat height = z # zs \<longrightarrow>
            (\<forall>p \<in> set ((x, constrain_longitude y, z) # points). \<forall>s. \<exists>r s'.
               convert env (fst p) (fst (snd p)) (snd (snd p)) bit_code s = (Inr r, s')) \<longrightarrow>
            convert_points (events (snd (convert_latlon_arr env lat0 lon0 height0 dtime method_code w)))
              = convert_points (events w) @ (x, constrain_longitude y, z) # points \<and>
            convert_codes (events (snd (convert_latlon_arr env lat0 lon0 height0 dtime method_code w)))
              = convert_codes (events w) @ replicate (Suc (length points)) bit_code)"
proof (intro conjI impI)
  assume "\<not> good_height"
  with assms show "convert_latlon_arr env lat0 lon0 height0 dtime method_code w
      = (Inr (np_full_nan (shape in_lat), np_full_nan (shape in_lon),
              np_full_nan (shape height)), w1)"
    by (simp add: convert_latlon_arr_def)
next
  show "native w1 = native w"
    using broadcast_inputs_effects(1) [OF assms(1)] test_height_effects(1) [OF assms(6)]
    by simp
next
  show "native_calls (events w1) = native_calls (events w)"
    using broadcast_inputs_effects(2) [OF assms(1)] test_height_effects(2) [OF assms(6)]
    by simp
next
  assume g: "good_height"
    and la: "convert_latlon_arr_latitude in_lat = Inr lat"
    and sd: "set_current_datetime env t w1 = (Inr (), w2)"
    and bp: "batch_points lat (in_lon\<lparr>flat := map constrain_longitude (flat in_lon)\<rparr>) height
               = Some points"
    and hd: "flat lat = x # xs" "flat in_lon = y # ys" "flat height = z # zs"
    and ok: "\<forall>p \<in> set ((x, constrain_longitude y, z) # points). \<forall>s. \<exists>r s'.
               convert env (fst p) (fst (snd p)) (snd (snd p)) bit_code s = (Inr r, s')"
  let ?lon = "in_lon\<lparr>flat := map constrain_longitude (flat in_lon)\<rparr>"
  from hd(2) have hl: "flat ?lon = constrain_longitude y # map constrain_longitude ys"
    by simp
  from convert_vectorised_calls_every_point [OF bp hd(1) hl hd(3) ok, of w2]
  obtain outs w3 where v: "convert_vectorised env lat ?lon height bit_code w2 = (Inr outs, w3)"
      "convert_points (events w3)
         = convert_points (events w2) @ (x, constrain_longitude y, z) # points"
      "convert_codes (events w3)
         = convert_codes (events w2) @ replicate (Suc (length points)) bit_code"
    by blast
  have run: "convert_latlon_arr env lat0 lon0 height0 dtime method_code w = (Inr outs, w3)"
    using assms g la sd v(1) by (simp add: convert_latlon_arr_def)
  have p2: "convert_points (events w2) = convert_points (events w)"
    using broadcast_inputs_effects(3) [OF assms(1)] test_height_effects(3) [OF assms(6)]
      set_current_datetime_effects(1) [OF sd] by simp
  have c2: "convert_codes (events w2) = convert_codes (events w)"
    using broadcast_inputs_effects(4) [OF assms(1)] test_height_effects(4) [OF assms(6)]
      set_current_datetime_effects(2) [OF sd] by simp
  show "convert_points (events (snd (convert_latlon_arr env lat0 lon0 height0 dtime method_code w)))
      = convert_points (events w) @ (x, constrain_longitude y, z) # points"
    using run v(2) p2 by simp
  show "convert_codes (events (snd (convert_latlon_arr env lat0 lon0 height0 dtime method_code w)))
      = convert_codes (events w) @ replicate (Suc (length points)) bit_code"
    using run v(3) c2 by simp
qed

text \<open>
  The theorem on a batch of two points, at 100 km and at 3000 km. With the method
  \<^verbatim>\<open>"G2A"\<close> the height test fails on 3000 km and no point is converted, the one at 100 km
  included; with \<^verbatim>\<open>"TRACE"\<close> it passes and \<^verbatim>\<open>convert\<close> is called on both points.
\<close>

theorem batch_height_decision_witness:
  "fst (convert_latlon_arr echo_env (np_array1 [Num 20, Num 30]) (np_array1 [Num 0, Num 0])
          (np_array1 [Num 100, Num 3000]) new_year_2015 (MethodStr ''G2A'') world0)
     = Inr (np_full_nan (shape (np_array1 [Num 20, Num 30])),
            np_full_nan (shape (np_array1 [Num 0, Num 0])),
            np_full_nan (shape (np_array1 [Num 100, Num 3000]))) \<and>
   native_calls (events (snd (convert_latlon_arr echo_env (np_array1 [Num 20, Num 30])
          (np_array1 [Num 0, Num 0]) (np_array1 [Num 100, Num 3000]) new_year_2015
          (MethodStr ''G2A'') world0))) = native_calls (events world0) \<and>
   convert_points (events (snd (convert_latlon_arr echo_env (np_array1 [Num 20, Num 30])
          (np_array1 [Num 0, Num 0]) (np_array1 [Num 100, Num 3000]) new_year_2015
          (MethodStr ''TRACE'') world0)))
     = convert_points (events world0) @
       (Num 20, constrain_longitude (Num 0), Num 100) #
       [(Num 20, Num 0, Num 100), (Num 30, Num 0, Num 3000)]"
proof -
  let ?lat = "np_array1 [Num 20, Num 30]"
  let ?lon = "np_array1 [Num 0, Num 0]"
  let ?h = "np_array1 [Num 100, Num 3000]"
  let ?t = "\<lparr>year = 2015, month = 1, day = 1, hour = 0, minute = 0, second = 0\<rparr>"
  let ?w1 = "snd (test_height echo_env (Num 3000) 0 world0)"
  let ?w2 = "\<lparr>native = (), events = [Call_set_datetime 2015 1 1 0 0 0]\<rparr>"
  have h1: "broadcast_inputs ?lat ?lon ?h world0 = ((?lat, ?lon, ?h), world0)"
    by code_simp
  have h2: "check_shapes ?lat ?lon ?h = Inr ()"
    by code_simp
  have h3: "test_time new_year_2015 = Inr ?t"
    by code_simp
  have h4: "method_bit_code echo_env (MethodStr ''G2A'') = Inr 0"
    by code_simp
  have h4': "method_bit_code echo_env (MethodStr ''TRACE'') = Inr 2"
    by code_simp
  have h5: "np_nanmax (flat ?h) = Inr (Num 3000)"
    by code_simp
  have "fst (test_height echo_env (Num 3000) 0 world0) = False"
    by code_simp
  then have h6: "test_height echo_env (Num 3000) 0 world0 = (False, ?w1)"
    by (metis prod.collapse)
  have h6': "test_height echo_env (Num 3000) 2 world0 = (True, world0)"
    by code_simp
  have n: "\<not> False"
    by simp
  note blocked = batch_height_decision [OF h1 h2 h3 h4 h5 h6, THEN conjunct1, THEN mp, OF n]
  have la: "convert_latlon_arr_latitude ?lat = Inr ?lat"
    by code_simp
  have sd: "set_current_datetime echo_env ?t world0 = (Inr (), ?w2)"
    by code_simp
  have bp: "batch_points ?lat (?lon\<lparr>flat := map constrain_longitude (flat ?lon)\<rparr>) ?h
              = Some [(Num 20, Num 0, Num 100), (Num 30, Num 0, Num 3000)]"
    by code_simp
  have f1: "flat ?lat = Num 20 # [Num 30]" and f2: "flat ?lon = Num 0 # [Num 0]"
    and f3: "flat ?h = Num 100 # [Num 3000]"
    by (simp_all add: np_array1_def)
  have ok: "\<forall>p \<in> set ((Num 20, constrain_longitude (Num 0), Num 100) #
                 [(Num 20, Num 0, Num 100), (Num 30, Num 0, Num 3000)]).
              \<forall>s. \<exists>r s'. convert echo_env (fst p) (fst (snd p)) (snd (snd p)) 2 s = (Inr r, s')"
    by (simp add: echo_env_def)
  note passed = batch_height_decision [OF h1 h2 h3 h4' h5 h6', THEN conjunct2,
      THEN mp, OF TrueI, THEN mp, OF la, THEN mp, OF sd, THEN mp, OF bp,
      THEN mp, OF f1, THEN mp, OF f2, THEN mp, OF f3, THEN mp, OF ok, THEN conjunct1]
  from blocked have b1: "fst (convert_latlon_arr echo_env ?lat ?lon ?h new_year_2015
        (MethodStr ''G2A'') world0)
      = Inr (np_full_nan (shape ?lat), np_full_nan (shape ?lon), np_full_nan (shape ?h))"
    and b2: "native_calls (events (snd (convert_latlon_arr echo_env ?lat ?lon ?h new_year_2015
        (MethodStr ''G2A'') world0))) = native_calls (events world0)"
    by simp_all
  show ?thesis
    by (intro conjI) (rule b1, rule b2, rule passed)
qed

text \<open>
  Claim C8 as the spec states it fails: the greatest height of this batch passes the test,
  \<^verbatim>\<open>convert\<close> raises at the first point, and the second point is never handed to it.
\<close>

theorem later_points_not_converted:
  "np_nanmax (flat (np_array1 [Num 100, Num 100])) = Inr (Num 100) \<and>
   fst (test_height echo_env (Num 100) 0 world0) = True \<and>
   convert_points (events (snd (convert_latlon_arr echo_env (np_array1 [Num 10, Num 20])
          (np_array1 [Num 0, Num 0]) (np_array1 [Num 100, Num 100]) new_year_2015
          (MethodStr ''G2A'') world0)))
     = [(Num 10, Num 0, Num 100)]"
  by code_simp

end
